theory Spec2Isabelle
  imports Complex_Main "HOL-Library.Log_Nat" "HOL-Library.Word"
begin

section \<open>Aging and profit computation of \<open>app.py\<close>\<close>

text \<open>
  The dashboard computes two things on the project sheet: \<open>hitung_aging\<close> (days since
  registration and an aging bucket) and \<open>hitung_profit\<close> (a left join against the order
  sheet followed by five derived money columns and a month key). Both are pandas column
  programs; here a data frame is the list of its rows, a column assignment is a map over
  the rows, and the wall clock read by \<open>pd.Timestamp.today()\<close> is an argument.
\<close>

subsection \<open>Cells, timestamps and \<open>pd.to_datetime(..., errors='coerce')\<close>\<close>

text \<open>
  A timestamp is its count of nanoseconds since 1970-01-01T00:00, which is how
  \<open>datetime64[ns]\<close> stores it. A date cell as loaded from the sheet is blank
  (NaN, None or NaT), already a timestamp, or text. Turning text into a timestamp is the
  work of the pandas parser, which is not part of this repository: it is the argument
  \<open>parse\<close>, a partial map from text to timestamps, and text outside its domain is what
  \<open>errors='coerce'\<close> turns into NaT. Timestamps are integers without bound: the 64-bit
  range of \<open>datetime64[ns]\<close> (the years 1677 to 2262), and with it a difference of two
  timestamps too large for that range, is outside this model, as are date cells that
  hold plain numbers.
\<close>

type_synonym timestamp = int

datatype cell = Blank | Stamp timestamp | Text string

fun to_datetime :: "(string \<rightharpoonup> timestamp) \<Rightarrow> cell \<Rightarrow> timestamp option" where
  "to_datetime parse Blank = None"
| "to_datetime parse (Stamp t) = Some t"
| "to_datetime parse (Text s) = parse s"

text \<open>The cell that a coerced column holds: a timestamp or NaT.\<close>

fun datetime_cell :: "timestamp option \<Rightarrow> cell" where
  "datetime_cell None = Blank"
| "datetime_cell (Some t) = Stamp t"

definition ns_per_day :: int where
  "ns_per_day = 86400 * 1000000000"

text \<open>
  \<open>.dt.days\<close> of a difference of timestamps: the days component of the timedelta,
  which pandas normalises so that the remaining part of a day is never negative
  (\<open>Timedelta('-12h')\<close> is \<open>-1 days +12:00:00\<close>). On \<open>int\<close>, \<open>div\<close> rounds down.
\<close>

definition dt_days :: "int \<Rightarrow> int" where
  "dt_days delta = delta div ns_per_day"

text \<open>Whole days with the fraction cut off towards zero, the other reading of "whole days".\<close>

definition truncated_days :: "int \<Rightarrow> int" where
  "truncated_days delta = sgn delta * (\<bar>delta\<bar> div ns_per_day)"


subsection \<open>Numbers: \<open>float64\<close> and \<open>int64\<close> columns\<close>

text \<open>
  A \<open>float64\<close> value is NaN, an infinity, the negative zero, or a finite number, given
  as the real number it stands for. The operations are those of IEEE 754 binary64 as
  numpy applies them: the exact result rounded to the nearest double, ties to the even
  mantissa, overflow to an infinity, and division by zero an infinity or NaN without
  raising.
\<close>

datatype float64 = NaN | PInf | NInf | NZero | Fin real

fun isna :: "float64 \<Rightarrow> bool" where
  "isna NaN = True"
| "isna _ = False"

definition is_inf :: "float64 \<Rightarrow> bool" where
  "is_inf x = (x = PInf \<or> x = NInf)"

definition is_zero :: "float64 \<Rightarrow> bool" where
  "is_zero x = (x = NZero \<or> x = Fin 0)"

text \<open>A number proper: neither NaN nor an infinity.\<close>

definition is_finite :: "float64 \<Rightarrow> bool" where
  "is_finite x = (\<not> isna x \<and> \<not> is_inf x)"

text \<open>The sign bit (\<open>True\<close> is negative) and the value of a finite number.\<close>

fun sign_bit :: "float64 \<Rightarrow> bool" where
  "sign_bit NInf = True"
| "sign_bit NZero = True"
| "sign_bit (Fin r) = (r < 0)"
| "sign_bit _ = False"

fun finite_value :: "float64 \<Rightarrow> real" where
  "finite_value (Fin r) = r"
| "finite_value _ = 0"

definition signed_zero :: "bool \<Rightarrow> float64" where
  "signed_zero s = (if s then NZero else Fin 0)"

definition signed_inf :: "bool \<Rightarrow> float64" where
  "signed_inf s = (if s then NInf else PInf)"

definition pow2 :: "int \<Rightarrow> real" where
  "pow2 k = (if 0 \<le> k then 2 ^ nat k else 1 / 2 ^ nat (- k))"

text \<open>The exponent \<open>e\<close> with \<open>2^e \<le> a < 2^(e+1)\<close>, for a positive \<open>a\<close>.\<close>

definition binade :: "real \<Rightarrow> int" where
  "binade a = (if 1 \<le> a then bitlen \<lfloor>a\<rfloor> - 1 else - bitlen (\<lceil>1 / a\<rceil> - 1))"

definition round_half_even :: "real \<Rightarrow> int" where
  "round_half_even x =
     (let f = \<lfloor>x\<rfloor>; d = x - of_int f
      in if d < 1 / 2 then f else if 1 / 2 < d then f + 1 else if even f then f else f + 1)"

text \<open>
  Rounding a real result to a double: 53 bits of mantissa, the exponent of the last bit
  no lower than \<open>-1074\<close> (subnormal numbers), an infinity from \<open>2^1024\<close> on. The flag is
  the sign of the zero that an exact zero gives.
\<close>

definition round64 :: "bool \<Rightarrow> real \<Rightarrow> float64" where
  "round64 s r =
     (if r = 0 then signed_zero s
      else let a = \<bar>r\<bar>;
               q = max (binade a - 52) (- 1074);
               n = round_half_even (a / pow2 q)
           in if 1024 < q + bitlen n then signed_inf (r < 0)
              else if n = 0 then signed_zero (r < 0)
              else Fin ((if r < 0 then - 1 else 1) * of_int n * pow2 q))"

definition fmul :: "float64 \<Rightarrow> float64 \<Rightarrow> float64" where
  "fmul x y =
     (if isna x \<or> isna y then NaN
      else if (is_inf x \<and> is_zero y) \<or> (is_zero x \<and> is_inf y) then NaN
      else if is_inf x \<or> is_inf y then signed_inf (sign_bit x \<noteq> sign_bit y)
      else round64 (sign_bit x \<noteq> sign_bit y) (finite_value x * finite_value y))"

definition fdiv :: "float64 \<Rightarrow> float64 \<Rightarrow> float64" where
  "fdiv x y =
     (if isna x \<or> isna y then NaN
      else if (is_inf x \<and> is_inf y) \<or> (is_zero x \<and> is_zero y) then NaN
      else if is_inf x \<or> is_zero y then signed_inf (sign_bit x \<noteq> sign_bit y)
      else if is_inf y then signed_zero (sign_bit x \<noteq> sign_bit y)
      else round64 (sign_bit x \<noteq> sign_bit y) (finite_value x / finite_value y))"

definition fadd :: "float64 \<Rightarrow> float64 \<Rightarrow> float64" where
  "fadd x y =
     (if isna x \<or> isna y then NaN
      else if is_inf x \<and> is_inf y then (if x = y then x else NaN)
      else if is_inf x then x
      else if is_inf y then y
      else if is_zero x \<and> is_zero y then signed_zero (sign_bit x \<and> sign_bit y)
      else round64 False (finite_value x + finite_value y))"

fun fneg :: "float64 \<Rightarrow> float64" where
  "fneg NaN = NaN"
| "fneg PInf = NInf"
| "fneg NInf = PInf"
| "fneg NZero = Fin 0"
| "fneg (Fin r) = (if r = 0 then NZero else Fin (- r))"

definition fsub :: "float64 \<Rightarrow> float64 \<Rightarrow> float64" where
  "fsub x y = fadd x (fneg y)"

text \<open>
  A numeric column of the sheet is read as \<open>int64\<close> when every cell holds a whole number
  and as \<open>float64\<close> otherwise, a blank cell being NaN; a cell carries the type of its
  column. Between two \<open>int64\<close> columns numpy multiplies in 64 bits and wraps; where a
  \<open>float64\<close> operand or a true division is involved, an \<open>int64\<close> operand is first cast
  to the nearest double.
\<close>

datatype num = I "64 word" | F float64

definition int_to_float :: "64 word \<Rightarrow> float64" where
  "int_to_float w =
     (let v = sint w; k = bitlen \<bar>v\<bar> - 53
      in if k \<le> 0 then Fin (of_int v)
         else Fin (of_int (sgn v * round_half_even (of_int \<bar>v\<bar> / 2 ^ nat k) * 2 ^ nat k)))"

fun to_float :: "num \<Rightarrow> float64" where
  "to_float (I w) = int_to_float w"
| "to_float (F x) = x"

fun mul :: "num \<Rightarrow> num \<Rightarrow> num" where
  "mul (I a) (I b) = I (a * b)"
| "mul x y = F (fmul (to_float x) (to_float y))"

fun num_isna :: "num \<Rightarrow> bool" where
  "num_isna (I w) = False"
| "num_isna (F x) = isna x"

fun num_is_zero :: "num \<Rightarrow> bool" where
  "num_is_zero (I w) = (w = 0)"
| "num_is_zero (F x) = is_zero x"

fun num_is_finite :: "num \<Rightarrow> bool" where
  "num_is_finite (I w) = True"
| "num_is_finite (F x) = is_finite x"

text \<open>The constant \<open>0.11\<close> of the source is the double nearest to eleven hundredths.\<close>

definition PAJAK_RATE :: float64 where
  "PAJAK_RATE = round64 False (11 / 100)"

subsection \<open>The project sheet and \<open>hitung_aging\<close>\<close>

record project =
  Sales_Name :: string
  Date_Register :: cell
  Bulan_Closed :: cell
  Customer :: string
  Project_Name :: string
  Type_Product :: "string option"
  QTY :: num
  Harga_Satuan :: num

record aged = project +
  Aging_Days :: "int option"
  Aging_Category :: string

text \<open>
  The bucket labels are Python strings with two characters outside ASCII; they are
  written here as their UTF-8 bytes (U+2264 is E2 89 A4, U+2013 is E2 80 93).
\<close>

definition label_le30 :: string where
  "label_le30 = CHR 0xE2 # CHR 0x89 # CHR 0xA4 # ''30 Hari''"

definition label_31_90 :: string where
  "label_31_90 = ''31'' @ CHR 0xE2 # CHR 0x80 # CHR 0x93 # ''90 Hari''"

definition label_gt90 :: string where
  "label_gt90 = ''>90 Hari''"

text \<open>\<open>Aging Days\<close> is a number or NaN; \<open>pd.isna\<close> is the \<open>None\<close> case.\<close>

fun categorize :: "int option \<Rightarrow> string" where
  "categorize None = ''Unknown''"
| "categorize (Some days) =
     (if days \<le> 30 then label_le30
      else if days \<le> 90 then label_31_90
      else label_gt90)"

text \<open>
  The \<open>np.where\<close> of lines 33 to 37, for one row: both differences are NaT, hence NaN
  days, when the registration date is NaT.
\<close>

definition aging_days :: "timestamp \<Rightarrow> timestamp option \<Rightarrow> timestamp option \<Rightarrow> int option" where
  "aging_days today reg cls =
     (case cls of
        Some c \<Rightarrow> (case reg of Some r \<Rightarrow> Some (dt_days (c - r)) | None \<Rightarrow> None)
      | None \<Rightarrow> (case reg of Some r \<Rightarrow> Some (dt_days (today - r)) | None \<Rightarrow> None))"

definition aging_row :: "(string \<rightharpoonup> timestamp) \<Rightarrow> timestamp \<Rightarrow> project \<Rightarrow> aged" where
  "aging_row parse today r =
     (let reg = to_datetime parse (Date_Register r);
          cls = to_datetime parse (Bulan_Closed r);
          days = aging_days today reg cls
      in project.extend
           (r\<lparr>Date_Register := datetime_cell reg, Bulan_Closed := datetime_cell cls\<rparr>)
           (aged.fields days (categorize days)))"

definition hitung_aging :: "(string \<rightharpoonup> timestamp) \<Rightarrow> timestamp \<Rightarrow> project list \<Rightarrow> aged list" where
  "hitung_aging parse today df = map (aging_row parse today) df"

subsection \<open>The order sheet: \<open>dropna\<close> and \<open>drop_duplicates\<close>\<close>

text \<open>The two columns of the order sheet that \<open>hitung_profit\<close> reads.\<close>

record order_row =
  order_Nama_Produk :: "string option"
  order_Harga_Perolehan :: num

text \<open>\<open>dropna(subset=['Nama Produk', 'Harga Perolehan'])\<close>: a row goes when either is NA.\<close>

definition dropna :: "order_row list \<Rightarrow> order_row list" where
  "dropna order_df =
     filter (\<lambda>row. \<not> (order_Nama_Produk row = None \<or> num_isna (order_Harga_Perolehan row)))
       order_df"

text \<open>
  \<open>keep='first'\<close>: rows are visited in order and a row is kept when its key has not
  been seen before.
\<close>

fun keep_first :: "('a \<Rightarrow> 'k) \<Rightarrow> 'k list \<Rightarrow> 'a list \<Rightarrow> 'a list" where
  "keep_first key seen [] = []"
| "keep_first key seen (x # xs) =
     (if key x \<in> set seen then keep_first key seen xs
      else x # keep_first key (key x # seen) xs)"

definition drop_duplicates :: "order_row list \<Rightarrow> order_row list" where
  "drop_duplicates order_df = keep_first order_Nama_Produk [] order_df"

subsection \<open>The left join and \<open>hitung_profit\<close>\<close>

datatype error = ValueError

text \<open>
  The pandas release decides one step below, the printing of a missing period:
  releases before 3.0 and releases from 3.0 on.
\<close>

datatype pandas = Pandas_2 | Pandas_3

record merged = aged +
  Nama_Produk :: "string option"
  Harga_Perolehan :: num

record enriched = merged +
  Harga_Netto :: float64
  Total_Jual_Netto :: float64
  Total_Perolehan :: num
  Profit_Value :: float64
  Profit_pct :: float64
  Bulan_Transaksi :: "string option"

text \<open>
  \<open>df.merge(right, left_on='Type Product', right_on='Nama Produk', how='left')\<close>.
  Before joining, pandas compares the types of the two key columns, unless one frame has
  no rows. The right keys are text here, the rows without a name being dropped. The
  left key column is text as soon as one cell holds text; with every cell blank it is a
  \<open>float64\<close> column of NaN, and merging that with a text column raises \<open>ValueError\<close>.
\<close>

definition merge_keys_clash :: "aged list \<Rightarrow> order_row list \<Rightarrow> bool" where
  "merge_keys_clash left right =
     (left \<noteq> [] \<and> right \<noteq> [] \<and> list_all (\<lambda>l. Type_Product l = None) left)"

text \<open>
  The join proper: the rows of the left frame in their order, each once per right row
  with an equal key, or once with the right columns missing when no right row has that
  key. A missing cost is NaN, which an \<open>int64\<close> column cannot hold: when some left row
  finds no match the cost column of the result is \<open>float64\<close>, its numbers cast; when
  every left row finds one it keeps the type it has in the order sheet.
\<close>

definition matches :: "order_row list \<Rightarrow> aged \<Rightarrow> order_row list" where
  "matches right l = filter (\<lambda>row. order_Nama_Produk row = Type_Product l) right"

definition joined_cost :: "bool \<Rightarrow> num \<Rightarrow> num" where
  "joined_cost all_matched c = (if all_matched then c else F (to_float c))"

definition join_row :: "bool \<Rightarrow> aged \<Rightarrow> order_row \<Rightarrow> merged" where
  "join_row all_matched l row =
     aged.extend l
       (merged.fields (order_Nama_Produk row)
          (joined_cost all_matched (order_Harga_Perolehan row)))"

definition unmatched_row :: "aged \<Rightarrow> merged" where
  "unmatched_row l = aged.extend l (merged.fields None (F NaN))"

definition every_row_matched :: "order_row list \<Rightarrow> aged list \<Rightarrow> bool" where
  "every_row_matched right left = list_all (\<lambda>l. matches right l \<noteq> []) left"

definition merge_left :: "aged list \<Rightarrow> order_row list \<Rightarrow> error + merged list" where
  "merge_left left right =
     (if merge_keys_clash left right then Inl ValueError
      else Inr (concat (map (\<lambda>l.
             (case matches right l of
                [] \<Rightarrow> [unmatched_row l]
              | ms \<Rightarrow> map (join_row (every_row_matched right left) l) ms)) left)))"

text \<open>
  What the join makes of one left row when no key occurs twice on the right: the row
  joined with the first right row of its key, or the unmatched row.
\<close>

definition lookup_row :: "bool \<Rightarrow> order_row list \<Rightarrow> aged \<Rightarrow> merged" where
  "lookup_row all_matched table l =
     (case find (\<lambda>row. order_Nama_Produk row = Type_Product l) table of
        None \<Rightarrow> unmatched_row l | Some row \<Rightarrow> join_row all_matched l row)"

text \<open>
  \<open>.dt.to_period('M')\<close>: the calendar year and month of the day the timestamp falls on
  (proleptic Gregorian calendar, by the usual era arithmetic on the day number), printed
  as \<open>%Y-%m\<close>.
\<close>

definition year_month :: "timestamp \<Rightarrow> int \<times> int" where
  "year_month t =
     (let z = t div ns_per_day + 719468;
          era = z div 146097;
          doe = z mod 146097;
          yoe = (doe - doe div 1460 + doe div 36524 - doe div 146096) div 365;
          doy = doe - (365 * yoe + yoe div 4 - yoe div 100);
          mp = (5 * doy + 2) div 153;
          m = (if mp < 10 then mp + 3 else mp - 9);
          y = yoe + era * 400
      in (if m \<le> 2 then y + 1 else y, m))"

definition digit :: "int \<Rightarrow> char" where
  "digit d = ''0123456789'' ! nat (d mod 10)"

definition strftime_Ym :: "int \<times> int \<Rightarrow> string" where
  "strftime_Ym ym =
     (case ym of (y, m) \<Rightarrow>
        [digit (y div 1000), digit (y div 100), digit (y div 10), digit y,
         CHR ''-'', digit (m div 10), digit m])"

text \<open>
  \<open>.astype(str)\<close> on the period column. A period prints as above. The missing period
  NaT becomes the three-letter string \<open>NaT\<close> on pandas before 3.0, where the result is
  a column of Python strings; from 3.0 on the result is a string column in which it stays
  missing (NaN), here \<open>None\<close>.
\<close>

fun astype_str :: "pandas \<Rightarrow> timestamp option \<Rightarrow> string option" where
  "astype_str v (Some t) = Some (strftime_Ym (year_month t))"
| "astype_str Pandas_2 None = Some ''NaT''"
| "astype_str Pandas_3 None = None"

text \<open>
  Lines 68 to 73, the column assignments, for one row of the merged frame. The sale
  price divided by the Python float \<open>1 + PAJAK_RATE\<close> is \<open>float64\<close> whatever the
  column's type; so is that times the quantity. Cost times quantity is \<open>int64\<close> when both
  columns are.
\<close>

definition profit_row :: "pandas \<Rightarrow> (string \<rightharpoonup> timestamp) \<Rightarrow> merged \<Rightarrow> enriched" where
  "profit_row v parse m =
     (let netto = fdiv (to_float (Harga_Satuan m)) (fadd (Fin 1) PAJAK_RATE);
          total_jual = fmul netto (to_float (QTY m));
          total_perolehan = mul (Harga_Perolehan m) (QTY m);
          profit = fsub total_jual (to_float total_perolehan);
          pct = fmul (fdiv profit total_jual) (Fin 100);
          bulan = astype_str v (to_datetime parse (Date_Register m))
      in merged.extend m
           (enriched.fields netto total_jual total_perolehan profit pct bulan))"

definition hitung_profit ::
  "pandas \<Rightarrow> (string \<rightharpoonup> timestamp) \<Rightarrow> aged list \<Rightarrow> order_row list \<Rightarrow> error + enriched list"
  where
  "hitung_profit v parse df order_df =
     (case merge_left df (drop_duplicates (dropna order_df)) of
        Inl e \<Rightarrow> Inl e
      | Inr m \<Rightarrow> Inr (map (profit_row v parse) m))"

subsection \<open>Example inputs\<close>

text \<open>
  The end-to-end scenario of the specification: registered 2024-01-01, still open,
  product X, two units at 111 each, evaluated on 2024-04-30. The numbers are whole, so
  their columns are \<open>int64\<close>.
\<close>

definition scenario_record :: project where
  "scenario_record =
     \<lparr>Sales_Name = ''Sari'', Date_Register = Stamp 1704067200000000000, Bulan_Closed = Blank,
      Customer = ''RS Harapan'', Project_Name = ''Monitor ICU'', Type_Product = Some ''X'',
      QTY = I 2, Harga_Satuan = I 111\<rparr>"

definition scenario_today :: timestamp where
  "scenario_today = 1714435200000000000"

text \<open>The same project closed on 2024-01-31, thirty days after registration.\<close>

definition closed_after_30_days :: project where
  "closed_after_30_days = scenario_record\<lparr>Bulan_Closed := Stamp 1706659200000000000\<rparr>"

text \<open>The same project with a closing date of 2023-12-31 12:00, half a day before registration.\<close>

definition closed_half_day_early :: project where
  "closed_half_day_early = scenario_record\<lparr>Bulan_Closed := Stamp 1704024000000000000\<rparr>"

text \<open>
  The same project with both dates typed as text in the sheet, and the parser on those
  texts: the first is a date, the second (\<open>belum\<close>, "not yet") is not.
\<close>

definition text_dates :: project where
  "text_dates =
     scenario_record\<lparr>Date_Register := Text ''2024-01-01'', Bulan_Closed := Text ''belum''\<rparr>"

definition scenario_parse :: "string \<rightharpoonup> timestamp" where
  "scenario_parse = [''2024-01-01'' \<mapsto> 1704067200000000000]"

text \<open>The first bucket label as the specification spells it.\<close>

definition spec_label_le30 :: string where
  "spec_label_le30 = CHR 0xE2 # CHR 0x89 # CHR 0xA4 # ''30 Days''"

text \<open>The order sheet of the scenario, and the scenario record after \<open>hitung_aging\<close>.\<close>

definition scenario_costs :: "order_row list" where
  "scenario_costs = [\<lparr>order_Nama_Produk = Some ''X'', order_Harga_Perolehan = I 50\<rparr>]"

definition scenario_aged :: "aged list" where
  "scenario_aged = hitung_aging Map.empty scenario_today [scenario_record]"

text \<open>The scenario record with a product that the order sheet does not list.\<close>

definition unknown_product :: project where
  "unknown_product = scenario_record\<lparr>Type_Product := Some ''Y''\<rparr>"

definition unknown_aged :: "aged list" where
  "unknown_aged = hitung_aging Map.empty scenario_today [unknown_product]"

text \<open>The scenario record with the product type left blank, the only record of its sheet.\<close>

definition blank_product :: project where
  "blank_product = scenario_record\<lparr>Type_Product := None\<rparr>"

definition blank_aged :: "aged list" where
  "blank_aged = hitung_aging Map.empty scenario_today [blank_product]"

text \<open>The scenario record sold at a price of zero.\<close>

definition zero_price :: project where
  "zero_price = scenario_record\<lparr>Harga_Satuan := I 0\<rparr>"

definition zero_price_aged :: "aged list" where
  "zero_price_aged = hitung_aging Map.empty scenario_today [zero_price]"

text \<open>The scenario record with a registration date that does not parse.\<close>

definition unparseable_date :: project where
  "unparseable_date = scenario_record\<lparr>Date_Register := Text ''belum''\<rparr>"

definition unparseable_aged :: "aged list" where
  "unparseable_aged = hitung_aging scenario_parse scenario_today [unparseable_date]"

text \<open>
  An order sheet with a row without cost, a row without name, and two rows for the
  same product with different costs; the blank makes the cost column \<open>float64\<close>.
\<close>

definition messy_costs :: "order_row list" where
  "messy_costs =
     [\<lparr>order_Nama_Produk = Some ''X'', order_Harga_Perolehan = F NaN\<rparr>,
      \<lparr>order_Nama_Produk = None, order_Harga_Perolehan = F (Fin 10)\<rparr>,
      \<lparr>order_Nama_Produk = Some ''X'', order_Harga_Perolehan = F (Fin 50)\<rparr>,
      \<lparr>order_Nama_Produk = Some ''X'', order_Harga_Perolehan = F (Fin 70)\<rparr>]"

section \<open>Properties of \<open>hitung_aging\<close>\<close>

lemma aging_row_sel:
  "Aging_Days (aging_row parse today r) =
     aging_days today (to_datetime parse (Date_Register r)) (to_datetime parse (Bulan_Closed r))"
  "Aging_Category (aging_row parse today r) = categorize (Aging_Days (aging_row parse today r))"
  "Date_Register (aging_row parse today r) = datetime_cell (to_datetime parse (Date_Register r))"
  "Bulan_Closed (aging_row parse today r) = datetime_cell (to_datetime parse (Bulan_Closed r))"
  "Sales_Name (aging_row parse today r) = Sales_Name r"
  "Customer (aging_row parse today r) = Customer r"
  "Project_Name (aging_row parse today r) = Project_Name r"
  "Type_Product (aging_row parse today r) = Type_Product r"
  "QTY (aging_row parse today r) = QTY r"
  "Harga_Satuan (aging_row parse today r) = Harga_Satuan r"
  by (simp_all add: aging_row_def Let_def project.defs aged.defs)

lemma categorize_cases: "categorize d \<in> {''Unknown'', label_le30, label_31_90, label_gt90}"
  by (cases d) simp_all

lemma hitung_aging_nth:
  "i < length df \<Longrightarrow> hitung_aging parse today df ! i = aging_row parse today (df ! i)"
  by (simp add: hitung_aging_def)

lemma hitung_aging_length: "length (hitung_aging parse today df) = length df"
  by (simp add: hitung_aging_def)

lemma floor_days_bounds:
  "dt_days delta * ns_per_day \<le> delta \<and> delta < (dt_days delta + 1) * ns_per_day"
proof -
  have pos: "0 < ns_per_day"
    by (simp add: ns_per_day_def)
  have split: "delta div ns_per_day * ns_per_day + delta mod ns_per_day = delta"
    by (rule div_mult_mod_eq)
  have low: "0 \<le> delta mod ns_per_day" and high: "delta mod ns_per_day < ns_per_day"
    using pos by simp_all
  have expand:
    "(delta div ns_per_day + 1) * ns_per_day = delta div ns_per_day * ns_per_day + ns_per_day"
    by (simp add: distrib_right)
  show ?thesis
    unfolding dt_days_def expand using split low high by linarith
qed

lemma truncated_days_nonneg: "0 \<le> delta \<Longrightarrow> truncated_days delta = dt_days delta"
  by (cases "delta = 0") (simp_all add: truncated_days_def dt_days_def)

text \<open>
  C2, as the code has it. For a record whose registration date parses, \<open>Aging Days\<close> is
  the number \<open>d\<close> of whole days in the difference \<open>delta\<close>, which is closing date minus
  registration date when the closing date is present and \<open>today\<close> minus registration
  date when it is absent; \<open>d\<close> is \<open>delta\<close> rounded down to days (\<open>d\<close> days \<open>\<le> delta <\<close>
  \<open>d + 1\<close> days), which is the truncated difference whenever \<open>delta\<close> is not negative.
  A record whose registration date does not parse has no day count.
\<close>

theorem hitung_aging_days_floor:
  assumes "i < length df"
  shows "case to_datetime parse (Date_Register (df ! i)) of
       None \<Rightarrow> Aging_Days (hitung_aging parse today df ! i) = None
     | Some reg \<Rightarrow>
         (\<exists>d. Aging_Days (hitung_aging parse today df ! i) = Some d \<and>
            (let delta = (case to_datetime parse (Bulan_Closed (df ! i)) of
                            Some c \<Rightarrow> c - reg | None \<Rightarrow> today - reg)
             in d * ns_per_day \<le> delta \<and> delta < (d + 1) * ns_per_day \<and>
                (0 \<le> delta \<longrightarrow> d = truncated_days delta)))"
proof (cases "to_datetime parse (Date_Register (df ! i))")
  case None
  with assms show ?thesis
    by (simp add: hitung_aging_nth aging_row_sel aging_days_def split: option.splits)
next
  case (Some reg)
  define delta where "delta =
    (case to_datetime parse (Bulan_Closed (df ! i)) of Some c \<Rightarrow> c - reg | None \<Rightarrow> today - reg)"
  have days: "Aging_Days (hitung_aging parse today df ! i) = Some (dt_days delta)"
    using assms Some
    by (simp add: hitung_aging_nth aging_row_sel aging_days_def delta_def split: option.splits)
  have "dt_days delta * ns_per_day \<le> delta \<and> delta < (dt_days delta + 1) * ns_per_day \<and>
      (0 \<le> delta \<longrightarrow> dt_days delta = truncated_days delta)"
    using floor_days_bounds [of delta] truncated_days_nonneg [of delta] by simp
  with days show ?thesis
    unfolding Some option.case Let_def delta_def [symmetric] by blast
qed

text \<open>The scenario record, open for 120 days on 2024-04-30.\<close>

theorem hitung_aging_days_floor_witness:
  "(0::nat) < length [scenario_record] \<and>
   to_datetime Map.empty (Date_Register ([scenario_record] ! 0)) = Some 1704067200000000000 \<and>
   Aging_Days (hitung_aging Map.empty scenario_today [scenario_record] ! 0) = Some 120"
  using hitung_aging_days_floor [of 0 "[scenario_record]" Map.empty scenario_today]
  by (simp add: hitung_aging_def aging_row_sel aging_days_def dt_days_def ns_per_day_def
      scenario_record_def scenario_today_def)

text \<open>
  C2 as stated fails where the difference is negative and not a whole number of days:
  a closing date half a day before the registration date gives \<open>-1\<close>, and the truncated
  difference is \<open>0\<close>.
\<close>

theorem truncated_days_counterexample:
  "Aging_Days (hitung_aging Map.empty scenario_today [closed_half_day_early] ! 0) = Some (- 1) \<and>
   truncated_days (1704024000000000000 - 1704067200000000000) = 0"
  by (simp add: hitung_aging_def aging_row_sel aging_days_def dt_days_def truncated_days_def
      ns_per_day_def closed_half_day_early_def scenario_record_def)

text \<open>
  C3, with the labels of the code. A record whose registration date does not parse is
  \<open>Unknown\<close>; one whose registration date parses has a day count \<open>d\<close>, and its category
  is \<open>\<le>30 Hari\<close> for \<open>d \<le> 30\<close> (negative counts included), \<open>31\<endash>90 Hari\<close> for
  \<open>30 < d \<le> 90\<close> and \<open>>90 Hari\<close> for \<open>90 < d\<close>.
\<close>

theorem hitung_aging_category_rules:
  assumes "i < length df"
  shows "let r' = hitung_aging parse today df ! i in
     (to_datetime parse (Date_Register (df ! i)) = None \<longrightarrow> Aging_Category r' = ''Unknown'') \<and>
     (to_datetime parse (Date_Register (df ! i)) \<noteq> None \<longrightarrow> Aging_Days r' \<noteq> None) \<and>
     (\<forall>d. Aging_Days r' = Some d \<longrightarrow>
        (d \<le> 30 \<longrightarrow> Aging_Category r' = label_le30) \<and>
        (30 < d \<and> d \<le> 90 \<longrightarrow> Aging_Category r' = label_31_90) \<and>
        (90 < d \<longrightarrow> Aging_Category r' = label_gt90))"
  using assms
  by (auto simp: hitung_aging_nth aging_row_sel aging_days_def Let_def split: option.splits)

text \<open>The boundary at thirty days.\<close>

theorem hitung_aging_category_rules_witness:
  "(0::nat) < length [closed_after_30_days] \<and>
   Aging_Days (hitung_aging Map.empty scenario_today [closed_after_30_days] ! 0) = Some 30 \<and>
   Aging_Category (hitung_aging Map.empty scenario_today [closed_after_30_days] ! 0) = label_le30"
  using hitung_aging_category_rules [of 0 "[closed_after_30_days]" Map.empty scenario_today]
  by (simp add: hitung_aging_def aging_row_sel aging_days_def dt_days_def ns_per_day_def
      closed_after_30_days_def scenario_record_def Let_def)

text \<open>
  C3 as stated names the labels in English; at thirty days the code's label is not
  the specification's.
\<close>

theorem spec_label_counterexample:
  "Aging_Days (hitung_aging Map.empty scenario_today [closed_after_30_days] ! 0) = Some 30 \<and>
   Aging_Category (hitung_aging Map.empty scenario_today [closed_after_30_days] ! 0)
     \<noteq> spec_label_le30"
  by (simp add: hitung_aging_def aging_row_sel aging_days_def dt_days_def ns_per_day_def
      closed_after_30_days_def scenario_record_def label_le30_def spec_label_le30_def)

text \<open>
  C9, as the code has it. \<open>hitung_aging\<close> keeps the number and order of the records and
  every column other than the two date columns; it replaces the registration date and
  the closing date by their coerced timestamps (NaT when the cell does not parse), so
  these two are as loaded exactly when the cell was not text.
\<close>

theorem hitung_aging_frame:
  "length (hitung_aging parse today df) = length df \<and>
   (\<forall>i < length df.
      let r = df ! i; r' = hitung_aging parse today df ! i in
        Sales_Name r' = Sales_Name r \<and> Customer r' = Customer r \<and>
        Project_Name r' = Project_Name r \<and> Type_Product r' = Type_Product r \<and>
        QTY r' = QTY r \<and> Harga_Satuan r' = Harga_Satuan r \<and>
        Date_Register r' = datetime_cell (to_datetime parse (Date_Register r)) \<and>
        Bulan_Closed r' = datetime_cell (to_datetime parse (Bulan_Closed r)) \<and>
        ((\<forall>s. Date_Register r \<noteq> Text s) \<longleftrightarrow> Date_Register r' = Date_Register r) \<and>
        ((\<forall>s. Bulan_Closed r \<noteq> Text s) \<longleftrightarrow> Bulan_Closed r' = Bulan_Closed r))"
proof -
  have keep: "(\<forall>s. c \<noteq> Text s) \<longleftrightarrow> datetime_cell (to_datetime parse c) = c" for c
  proof (cases c)
    case (Text s)
    have "datetime_cell d \<noteq> Text s" for d
      by (cases d) simp_all
    with Text show ?thesis
      by auto
  qed simp_all
  show ?thesis
    by (simp add: hitung_aging_length hitung_aging_nth aging_row_sel Let_def keep)
qed

theorem hitung_aging_frame_witness:
  "(0::nat) < length [text_dates] \<and>
   Customer (hitung_aging scenario_parse scenario_today [text_dates] ! 0) = ''RS Harapan'' \<and>
   Date_Register (hitung_aging scenario_parse scenario_today [text_dates] ! 0)
     = Stamp 1704067200000000000"
  using hitung_aging_frame [of scenario_parse scenario_today "[text_dates]"]
  by (simp add: text_dates_def scenario_record_def scenario_parse_def Let_def)

text \<open>
  C9 as stated fails on date cells that hold text: the registration date comes back as
  a timestamp and the unparseable closing date as NaT, not as loaded.
\<close>

theorem dates_as_loaded_counterexample:
  "Date_Register text_dates = Text ''2024-01-01'' \<and>
   Date_Register (hitung_aging scenario_parse scenario_today [text_dates] ! 0)
     = Stamp 1704067200000000000 \<and>
   Bulan_Closed text_dates = Text ''belum'' \<and>
   Bulan_Closed (hitung_aging scenario_parse scenario_today [text_dates] ! 0) = Blank"
  by (simp add: hitung_aging_def aging_row_sel text_dates_def scenario_record_def
      scenario_parse_def)

text \<open>
  C10. \<open>categorize\<close> sends every day count, and the missing one, to one of four
  labels, and every record that \<open>hitung_aging\<close> returns, one per input record, carries
  one of these four labels: \<open>Unknown\<close>, \<open>\<le>30 Hari\<close>, \<open>31\<endash>90 Hari\<close>, \<open>>90 Hari\<close>.
\<close>

theorem hitung_aging_category_enumeration:
  "(\<forall>days. categorize days \<in> {''Unknown'', label_le30, label_31_90, label_gt90}) \<and>
   length (hitung_aging parse today df) = length df \<and>
   (\<forall>r \<in> set (hitung_aging parse today df).
      Aging_Category r \<in> {''Unknown'', label_le30, label_31_90, label_gt90})"
proof -
  have "Aging_Category (aging_row parse today r)
      \<in> {''Unknown'', label_le30, label_31_90, label_gt90}" for r
    unfolding aging_row_sel(2) by (rule categorize_cases)
  then have "\<forall>r \<in> set (hitung_aging parse today df).
      Aging_Category r \<in> {''Unknown'', label_le30, label_31_90, label_gt90}"
    by (auto simp: hitung_aging_def)
  with categorize_cases hitung_aging_length show ?thesis
    by blast
qed

theorem hitung_aging_category_enumeration_witness:
  "hitung_aging Map.empty scenario_today [scenario_record] \<noteq> [] \<and>
   Aging_Category (hd (hitung_aging Map.empty scenario_today [scenario_record]))
     \<in> {''Unknown'', label_le30, label_31_90, label_gt90}"
  using hitung_aging_category_enumeration [of Map.empty scenario_today "[scenario_record]"]
  by (simp add: hitung_aging_def)


section \<open>Properties of \<open>hitung_profit\<close>\<close>

lemma keep_first_filter:
  "filter (\<lambda>x. key x = k) (keep_first key seen xs) =
     (if k \<in> set seen then [] else case find (\<lambda>x. key x = k) xs of None \<Rightarrow> [] | Some x \<Rightarrow> [x])"
  by (induction xs arbitrary: seen) (auto split: option.splits)

lemma keep_first_find:
  "find (\<lambda>x. key x = k) (keep_first key seen xs) =
     (if k \<in> set seen then None else find (\<lambda>x. key x = k) xs)"
  by (induction xs arbitrary: seen) (auto split: option.splits)

lemma keep_first_unseen: "x \<in> set (keep_first key seen xs) \<Longrightarrow> key x \<notin> set seen \<and> x \<in> set xs"
proof (induction xs arbitrary: seen)
  case Nil
  then show ?case by simp
next
  case (Cons a xs)
  show ?case
  proof (cases "key a \<in> set seen")
    case True
    with Cons show ?thesis by simp
  next
    case False
    with Cons.prems have "x = a \<or> x \<in> set (keep_first key (key a # seen) xs)"
      by simp
    then show ?thesis
    proof
      assume "x = a"
      with False show ?thesis by simp
    next
      assume "x \<in> set (keep_first key (key a # seen) xs)"
      from Cons.IH [OF this] show ?thesis by simp
    qed
  qed
qed

lemma keep_first_distinct: "distinct (map key (keep_first key seen xs))"
  by (induction xs arbitrary: seen) (auto dest: keep_first_unseen)

lemma keep_first_empty: "keep_first key [] xs = [] \<longleftrightarrow> xs = []"
  by (cases xs) simp_all

lemma find_filter: "find P (filter Q xs) = find (\<lambda>x. P x \<and> Q x) xs"
  by (induction xs) auto

lemma table_empty:
  "drop_duplicates (dropna order_df) = [] \<longleftrightarrow>
     \<not> (\<exists>row \<in> set order_df.
          order_Nama_Produk row \<noteq> None \<and> \<not> num_isna (order_Harga_Perolehan row))"
  by (auto simp: drop_duplicates_def keep_first_empty dropna_def filter_empty_conv)

lemma matches_drop_duplicates:
  "matches (drop_duplicates xs) l =
     (case find (\<lambda>row. order_Nama_Produk row = Type_Product l) (drop_duplicates xs) of
        None \<Rightarrow> [] | Some row \<Rightarrow> [row])"
  by (simp add: matches_def drop_duplicates_def keep_first_filter keep_first_find)

lemma merge_left_drop_duplicates:
  "merge_left df (drop_duplicates xs) =
     (if merge_keys_clash df (drop_duplicates xs) then Inl ValueError
      else Inr (map (lookup_row (every_row_matched (drop_duplicates xs) df) (drop_duplicates xs)) df))"
proof -
  let ?table = "drop_duplicates xs"
  have one: "(case matches ?table l of [] \<Rightarrow> [unmatched_row l] | ms \<Rightarrow> map (join_row b l) ms)
      = [lookup_row b ?table l]" for l b
    unfolding matches_drop_duplicates by (simp add: lookup_row_def split: option.splits)
  have "concat (map (\<lambda>l. [f l]) ys) = map f ys" for f :: "aged \<Rightarrow> merged" and ys
    by (induction ys) simp_all
  then show ?thesis
    unfolding merge_left_def one by simp
qed

lemma hitung_profit_rows:
  "hitung_profit v parse df order_df =
     (if merge_keys_clash df (drop_duplicates (dropna order_df)) then Inl ValueError
      else Inr (map (\<lambda>l. profit_row v parse
                  (lookup_row (every_row_matched (drop_duplicates (dropna order_df)) df)
                     (drop_duplicates (dropna order_df)) l)) df))"
  by (simp add: hitung_profit_def merge_left_drop_duplicates)

lemma merge_keys_clash_iff:
  "merge_keys_clash df (drop_duplicates (dropna order_df)) \<longleftrightarrow>
     df \<noteq> [] \<and> (\<forall>l \<in> set df. Type_Product l = None) \<and>
     (\<exists>row \<in> set order_df.
        order_Nama_Produk row \<noteq> None \<and> \<not> num_isna (order_Harga_Perolehan row))"
  using table_empty [of order_df] by (auto simp: merge_keys_clash_def list_all_iff)

lemma profit_row_sel:
  "Harga_Netto (profit_row v parse m) = fdiv (to_float (Harga_Satuan m)) (fadd (Fin 1) PAJAK_RATE)"
  "Total_Jual_Netto (profit_row v parse m) =
     fmul (Harga_Netto (profit_row v parse m)) (to_float (QTY m))"
  "Total_Perolehan (profit_row v parse m) = mul (Harga_Perolehan m) (QTY m)"
  "Profit_Value (profit_row v parse m) =
     fsub (Total_Jual_Netto (profit_row v parse m)) (to_float (Total_Perolehan (profit_row v parse m)))"
  "Profit_pct (profit_row v parse m) =
     fmul (fdiv (Profit_Value (profit_row v parse m)) (Total_Jual_Netto (profit_row v parse m)))
       (Fin 100)"
  "Bulan_Transaksi (profit_row v parse m) = astype_str v (to_datetime parse (Date_Register m))"
  "Harga_Perolehan (profit_row v parse m) = Harga_Perolehan m"
  "Nama_Produk (profit_row v parse m) = Nama_Produk m"
  "Aging_Days (profit_row v parse m) = Aging_Days m"
  "Aging_Category (profit_row v parse m) = Aging_Category m"
  "aged.truncate (profit_row v parse m) = aged.truncate m"
  by (simp_all add: profit_row_def Let_def merged.defs enriched.defs aged.defs)

lemma join_row_sel:
  "Harga_Perolehan (join_row b l row) = joined_cost b (order_Harga_Perolehan row)"
  "Nama_Produk (join_row b l row) = order_Nama_Produk row"
  "Harga_Satuan (join_row b l row) = Harga_Satuan l"
  "QTY (join_row b l row) = QTY l"
  "Date_Register (join_row b l row) = Date_Register l"
  "Aging_Days (join_row b l row) = Aging_Days l"
  "Aging_Category (join_row b l row) = Aging_Category l"
  "aged.truncate (join_row b l row) = l"
  by (simp_all add: join_row_def aged.defs merged.defs)

lemma unmatched_row_sel:
  "Harga_Perolehan (unmatched_row l) = F NaN"
  "Nama_Produk (unmatched_row l) = None"
  "Harga_Satuan (unmatched_row l) = Harga_Satuan l"
  "QTY (unmatched_row l) = QTY l"
  "Date_Register (unmatched_row l) = Date_Register l"
  "Aging_Days (unmatched_row l) = Aging_Days l"
  "Aging_Category (unmatched_row l) = Aging_Category l"
  "aged.truncate (unmatched_row l) = l"
  by (simp_all add: unmatched_row_def aged.defs merged.defs)

lemma lookup_row_cols:
  "Harga_Satuan (lookup_row b table l) = Harga_Satuan l"
  "QTY (lookup_row b table l) = QTY l"
  "Date_Register (lookup_row b table l) = Date_Register l"
  "Aging_Days (lookup_row b table l) = Aging_Days l"
  "Aging_Category (lookup_row b table l) = Aging_Category l"
  "aged.truncate (lookup_row b table l) = l"
  by (simp_all add: lookup_row_def join_row_sel unmatched_row_sel split: option.splits)

text \<open>
  C5, as the code has it. When the project sheet has records, none of them has a product
  type, and the order sheet has a row with both name and cost, the join raises
  \<open>ValueError\<close>. In every other case \<open>hitung_profit\<close> returns one record per input
  record, in the input's order, and cutting each output record back to the input
  columns gives the input record: nothing is dropped, nothing is duplicated, matched or
  not.
\<close>

theorem hitung_profit_left_join_complete:
  "(if df \<noteq> [] \<and> (\<forall>l \<in> set df. Type_Product l = None) \<and>
       (\<exists>row \<in> set order_df.
          order_Nama_Produk row \<noteq> None \<and> \<not> num_isna (order_Harga_Perolehan row))
    then hitung_profit v parse df order_df = Inl ValueError
    else \<exists>out. hitung_profit v parse df order_df = Inr out \<and>
           length out = length df \<and> map aged.truncate out = df)"
proof -
  let ?table = "drop_duplicates (dropna order_df)"
  let ?row = "\<lambda>l. profit_row v parse (lookup_row (every_row_matched ?table df) ?table l)"
  have input: "aged.truncate (?row l) = l" for l
    by (simp add: profit_row_sel lookup_row_cols)
  have "map aged.truncate (map ?row df) = map (\<lambda>l. l) df"
    unfolding map_map comp_def input by (rule refl)
  then have same: "map aged.truncate (map ?row df) = df"
    by simp
  show ?thesis
    unfolding merge_keys_clash_iff [symmetric] hitung_profit_rows using same by simp
qed

text \<open>Two records against an order sheet that lists the product of the first three times.\<close>

theorem hitung_profit_left_join_complete_witness:
  "\<exists>out. hitung_profit Pandas_2 Map.empty (scenario_aged @ unknown_aged) messy_costs = Inr out \<and>
     length out = 2 \<and> map Type_Product out = [Some ''X'', Some ''Y'']"
proof -
  have types: "map Type_Product (scenario_aged @ unknown_aged) = [Some ''X'', Some ''Y'']"
    by (simp add: scenario_aged_def unknown_aged_def hitung_aging_def aging_row_sel
        scenario_record_def unknown_product_def)
  then have len: "length (scenario_aged @ unknown_aged) = 2"
    by (simp add: scenario_aged_def unknown_aged_def hitung_aging_def)
  have some: "\<not> (\<forall>l \<in> set (scenario_aged @ unknown_aged). Type_Product l = None)"
    by (simp add: scenario_aged_def unknown_aged_def hitung_aging_def aging_row_sel
        scenario_record_def)
  from hitung_profit_left_join_complete
    [of "scenario_aged @ unknown_aged" messy_costs Pandas_2 Map.empty] some
  obtain out where out:
    "hitung_profit Pandas_2 Map.empty (scenario_aged @ unknown_aged) messy_costs = Inr out"
    "length out = length (scenario_aged @ unknown_aged)"
    "map aged.truncate out = scenario_aged @ unknown_aged"
    by (auto split: if_splits)
  have "map Type_Product out = map Type_Product (map aged.truncate out)"
    by (simp add: aged.defs)
  with out types len show ?thesis
    by simp
qed

text \<open>
  C5 as stated fails on a project sheet whose product-type column is blank throughout:
  against the order sheet of the scenario the join raises, and no record comes out.
\<close>

theorem blank_product_column_counterexample:
  "blank_aged \<noteq> [] \<and> hitung_profit Pandas_2 Map.empty blank_aged scenario_costs = Inl ValueError"
  by (simp add: hitung_profit_rows merge_keys_clash_def drop_duplicates_def dropna_def
      scenario_costs_def blank_aged_def hitung_aging_def aging_row_sel blank_product_def
      scenario_record_def)

text \<open>
  C4. The cost lookup table, \<open>drop_duplicates (dropna order_df)\<close>, holds only rows of
  the order sheet that have both a product name and an acquisition cost, holds no
  product name twice, and its row for a product name is the first row of the sheet with
  that name among the rows that have both values.
\<close>

theorem cost_lookup_first_occurrence:
  "let table = drop_duplicates (dropna order_df) in
     (\<forall>row \<in> set table. row \<in> set order_df \<and> order_Nama_Produk row \<noteq> None \<and>
        \<not> num_isna (order_Harga_Perolehan row)) \<and>
     distinct (map order_Nama_Produk table) \<and>
     (\<forall>k. find (\<lambda>row. order_Nama_Produk row = k) table =
        find (\<lambda>row. order_Nama_Produk row = k \<and>
                \<not> (order_Nama_Produk row = None \<or> num_isna (order_Harga_Perolehan row))) order_df)"
proof -
  have kept: "row \<in> set order_df \<and> order_Nama_Produk row \<noteq> None \<and>
      \<not> num_isna (order_Harga_Perolehan row)"
    if "row \<in> set (drop_duplicates (dropna order_df))" for row
  proof -
    from that have "row \<in> set (dropna order_df)"
      unfolding drop_duplicates_def by (auto dest: keep_first_unseen)
    then show ?thesis
      by (simp add: dropna_def)
  qed
  have first: "find (\<lambda>row. order_Nama_Produk row = k) (drop_duplicates (dropna order_df)) =
        find (\<lambda>row. order_Nama_Produk row = k \<and>
                \<not> (order_Nama_Produk row = None \<or> num_isna (order_Harga_Perolehan row))) order_df"
    for k
    by (simp add: drop_duplicates_def keep_first_find dropna_def find_filter)
  show ?thesis
    unfolding Let_def using kept first
    by (simp add: drop_duplicates_def keep_first_distinct)
qed

text \<open>Of three rows for product X the first complete one, with cost 50, is the table.\<close>

theorem cost_lookup_first_occurrence_witness:
  "drop_duplicates (dropna messy_costs)
     = [\<lparr>order_Nama_Produk = Some ''X'', order_Harga_Perolehan = F (Fin 50)\<rparr>] \<and>
   find (\<lambda>row. order_Nama_Produk row = Some ''X'') (drop_duplicates (dropna messy_costs))
     = Some \<lparr>order_Nama_Produk = Some ''X'', order_Harga_Perolehan = F (Fin 50)\<rparr>"
  using cost_lookup_first_occurrence [of messy_costs]
  by (simp add: messy_costs_def drop_duplicates_def dropna_def)







lemma nan_propagates:
  "fmul NaN y = NaN" "fmul x NaN = NaN" "fdiv NaN y = NaN" "fsub x NaN = NaN"
  "mul (F NaN) q = F NaN"
  by (simp_all add: fmul_def fdiv_def fsub_def fadd_def)

text \<open>
  C6, as the code has it. For a record whose product has no entry in the cost lookup
  table, \<open>hitung_profit\<close> either raises \<open>ValueError\<close> in the join, which it does when no
  record of the sheet has a product type and the order sheet has a complete row, or it
  returns, and then the record is in the output with its input and aging columns intact;
  its acquisition cost, total acquisition cost, profit value and profit percent are NaN,
  while its net unit price and net total sale are computed from the sale price and
  quantity as for any other record.
\<close>

theorem hitung_profit_unmatched:
  assumes "i < length df"
    and "find (\<lambda>row. order_Nama_Produk row = Type_Product (df ! i))
           (drop_duplicates (dropna order_df)) = None"
  shows "case hitung_profit v parse df order_df of
       Inl e \<Rightarrow> e = ValueError \<and> (\<forall>l \<in> set df. Type_Product l = None) \<and>
         (\<exists>row \<in> set order_df.
            order_Nama_Produk row \<noteq> None \<and> \<not> num_isna (order_Harga_Perolehan row))
     | Inr out \<Rightarrow> length out = length df \<and>
         (let r = df ! i; r' = out ! i in
            aged.truncate r' = r \<and> Aging_Days r' = Aging_Days r \<and>
            Aging_Category r' = Aging_Category r \<and>
            Nama_Produk r' = None \<and> Harga_Perolehan r' = F NaN \<and>
            Total_Perolehan r' = F NaN \<and> Profit_Value r' = NaN \<and> Profit_pct r' = NaN \<and>
            Harga_Netto r' =
              fdiv (to_float (Harga_Satuan r)) (fadd (Fin 1) (round64 False (11 / 100))) \<and>
            Total_Jual_Netto r' = fmul (Harga_Netto r') (to_float (QTY r)))"
proof (cases "merge_keys_clash df (drop_duplicates (dropna order_df))")
  case True
  then show ?thesis
    using merge_keys_clash_iff [of df order_df] by (simp add: hitung_profit_rows)
next
  case False
  let ?table = "drop_duplicates (dropna order_df)"
  define r where "r = df ! i"
  define r' where "r' = profit_row v parse (unmatched_row r)"
  define out where "out = map (\<lambda>l. profit_row v parse
      (lookup_row (every_row_matched ?table df) ?table l)) df"
  have returns: "hitung_profit v parse df order_df = Inr out"
    using False by (simp add: hitung_profit_rows out_def)
  have row: "out ! i = r'"
    using assms by (simp add: out_def lookup_row_def r'_def r_def)
  have frame: "aged.truncate r' = r" "Aging_Days r' = Aging_Days r"
    "Aging_Category r' = Aging_Category r"
    by (simp_all add: r'_def profit_row_sel unmatched_row_sel)
  have money: "Nama_Produk r' = None" "Harga_Perolehan r' = F NaN" "Total_Perolehan r' = F NaN"
    "Profit_Value r' = NaN" "Profit_pct r' = NaN"
    "Harga_Netto r' = fdiv (to_float (Harga_Satuan r)) (fadd (Fin 1) (round64 False (11 / 100)))"
    "Total_Jual_Netto r' = fmul (Harga_Netto r') (to_float (QTY r))"
    by (simp_all add: r'_def profit_row_sel unmatched_row_sel nan_propagates PAJAK_RATE_def)
  show ?thesis
    unfolding returns sum.case Let_def row r_def [symmetric] using frame money
    by (simp add: out_def)
qed

text \<open>The scenario record with the unlisted product.\<close>

lemma unknown_profit:
  "case hitung_profit Pandas_2 Map.empty unknown_aged scenario_costs of
     Inl e \<Rightarrow> False
   | Inr out \<Rightarrow>
       Profit_Value (out ! 0) = NaN \<and> Aging_Days (out ! 0) = Some 120 \<and>
       \<not> isna (Harga_Netto (out ! 0)) \<and> \<not> isna (Total_Jual_Netto (out ! 0))"
  by code_simp

lemma unknown_unmatched:
  "(0::nat) < length unknown_aged \<and>
   find (\<lambda>row. order_Nama_Produk row = Type_Product (unknown_aged ! 0))
     (drop_duplicates (dropna scenario_costs)) = None"
  by (simp add: unknown_aged_def hitung_aging_def aging_row_sel unknown_product_def
      scenario_record_def scenario_costs_def drop_duplicates_def dropna_def)

theorem hitung_profit_unmatched_witness:
  "(0::nat) < length unknown_aged \<and>
   find (\<lambda>row. order_Nama_Produk row = Type_Product (unknown_aged ! 0))
     (drop_duplicates (dropna scenario_costs)) = None \<and>
   (case hitung_profit Pandas_2 Map.empty unknown_aged scenario_costs of
      Inl e \<Rightarrow> False
    | Inr out \<Rightarrow> Profit_Value (out ! 0) = NaN \<and> Aging_Days (out ! 0) = Some 120)"
  using hitung_profit_unmatched [of 0 unknown_aged scenario_costs Pandas_2 Map.empty]
    unknown_unmatched unknown_profit
  by (simp split: sum.splits)

text \<open>
  C6 as stated fails for the net unit price and the net total sale: for the unlisted
  product the code returns, and they are numbers, not NaN.
\<close>

theorem net_price_defined_counterexample:
  "find (\<lambda>row. order_Nama_Produk row = Type_Product (unknown_aged ! 0))
     (drop_duplicates (dropna scenario_costs)) = None \<and>
   (case hitung_profit Pandas_2 Map.empty unknown_aged scenario_costs of
      Inl e \<Rightarrow> False
    | Inr out \<Rightarrow>
        \<not> isna (Harga_Netto (out ! 0)) \<and> \<not> isna (Total_Jual_Netto (out ! 0)))"
  using unknown_unmatched unknown_profit by (simp split: sum.splits)

lemma one_plus_rate: "fadd (Fin 1) PAJAK_RATE = Fin (4998995586381251 / 4503599627370496)"
  by code_simp

lemma round64_zero: "round64 s 0 = signed_zero s"
  by (simp add: round64_def)

lemma signed_kind:
  "is_zero (signed_zero s)" "is_inf (signed_inf s)" "\<not> isna (signed_inf s)"
  "\<not> is_zero (signed_inf s)" "\<not> is_zero NaN" "\<not> is_inf NaN"
  by (simp_all add: is_zero_def is_inf_def signed_zero_def signed_inf_def)

lemma is_zero_cases: "is_zero z \<Longrightarrow> \<not> isna z \<and> \<not> is_inf z \<and> finite_value z = 0"
  by (auto simp: is_zero_def is_inf_def)

lemma fdiv_zero_numerator:
  assumes "is_zero z"
  shows "is_zero (fdiv z (fadd (Fin 1) PAJAK_RATE))"
  using is_zero_cases [OF assms]
  by (simp add: one_plus_rate fdiv_def is_inf_def is_zero_def round64_zero signed_zero_def)

lemma fmul_zero_finite:
  assumes "is_zero z" and "is_finite q"
  shows "is_zero (fmul z q)"
  using is_zero_cases [OF assms(1)] assms(2)
  by (simp add: fmul_def is_finite_def round64_zero signed_kind)

lemma fdiv_by_zero:
  "is_zero z \<Longrightarrow> fdiv p z =
     (if isna p \<or> is_zero p then NaN else signed_inf (sign_bit p \<noteq> sign_bit z))"
  using is_zero_cases [of z] by (simp add: fdiv_def)

lemma percent_of_special:
  "fmul NaN (Fin 100) = NaN" "fmul (signed_inf s) (Fin 100) = signed_inf s"
  by (simp_all add: fmul_def is_inf_def is_zero_def signed_inf_def)

lemma to_float_zero: "num_is_zero x \<Longrightarrow> is_zero (to_float x)"
  by (cases x) (simp_all add: int_to_float_def is_zero_def)

lemma to_float_finite: "num_is_finite x \<Longrightarrow> is_finite (to_float x)"
  by (cases x) (simp_all add: int_to_float_def Let_def is_finite_def is_inf_def)

lemma profit_row_zero_price:
  assumes "num_is_zero (Harga_Satuan m)" and "num_is_finite (QTY m)"
  shows "is_zero (Total_Jual_Netto (profit_row v parse m)) \<and>
     (isna (Profit_pct (profit_row v parse m)) \<or> is_inf (Profit_pct (profit_row v parse m))) \<and>
     \<not> is_zero (Profit_pct (profit_row v parse m)) \<and>
     (isna (Profit_pct (profit_row v parse m)) \<longleftrightarrow>
        isna (Profit_Value (profit_row v parse m)) \<or> is_zero (Profit_Value (profit_row v parse m)))"
proof -
  define total where "total = Total_Jual_Netto (profit_row v parse m)"
  define profit where "profit = Profit_Value (profit_row v parse m)"
  have "is_zero (Harga_Netto (profit_row v parse m))"
    unfolding profit_row_sel using to_float_zero [OF assms(1)] by (rule fdiv_zero_numerator)
  then have total: "is_zero total"
    unfolding total_def profit_row_sel(2) using to_float_finite [OF assms(2)]
    by (rule fmul_zero_finite)
  have pct: "Profit_pct (profit_row v parse m) =
      (if isna profit \<or> is_zero profit then NaN
       else signed_inf (sign_bit profit \<noteq> sign_bit total))"
    unfolding profit_row_sel(5) profit_def [symmetric] total_def [symmetric]
    by (simp add: fdiv_by_zero [OF total] percent_of_special)
  show ?thesis
    unfolding total_def [symmetric] profit_def [symmetric] pct using total
    by (simp add: signed_kind)
qed

text \<open>
  C7, as the code has it. For a record with a unit sale price of zero and a quantity
  that is a number, \<open>hitung_profit\<close> raises only in the join, and only when no record of
  the sheet has a product type; when it returns, the net total sale is zero and the
  profit percent is never a number, so never zero: it is NaN when the profit value is
  NaN (no cost matched) or zero, and an infinity otherwise. The division itself does
  not raise: it is numpy's, which returns these values.
\<close>

theorem hitung_profit_zero_price:
  assumes "i < length df"
    and "num_is_zero (Harga_Satuan (df ! i))"
    and "num_is_finite (QTY (df ! i))"
  shows "case hitung_profit v parse df order_df of
       Inl e \<Rightarrow> e = ValueError \<and> (\<forall>l \<in> set df. Type_Product l = None)
     | Inr out \<Rightarrow> length out = length df \<and>
         (let r' = out ! i in
            is_zero (Total_Jual_Netto r') \<and>
            (isna (Profit_pct r') \<or> is_inf (Profit_pct r')) \<and>
            \<not> is_zero (Profit_pct r') \<and>
            (isna (Profit_pct r') \<longleftrightarrow> isna (Profit_Value r') \<or> is_zero (Profit_Value r')))"
proof (cases "merge_keys_clash df (drop_duplicates (dropna order_df))")
  case True
  then show ?thesis
    using merge_keys_clash_iff [of df order_df] by (simp add: hitung_profit_rows)
next
  case False
  let ?table = "drop_duplicates (dropna order_df)"
  define m where "m = lookup_row (every_row_matched ?table df) ?table (df ! i)"
  define out where "out = map (\<lambda>l. profit_row v parse
      (lookup_row (every_row_matched ?table df) ?table l)) df"
  have returns: "hitung_profit v parse df order_df = Inr out"
    using False by (simp add: hitung_profit_rows out_def)
  have row: "out ! i = profit_row v parse m"
    using assms(1) by (simp add: out_def m_def)
  have "num_is_zero (Harga_Satuan m)" "num_is_finite (QTY m)"
    using assms(2,3) by (simp_all add: m_def lookup_row_cols)
  then have "is_zero (Total_Jual_Netto (profit_row v parse m)) \<and>
     (isna (Profit_pct (profit_row v parse m)) \<or> is_inf (Profit_pct (profit_row v parse m))) \<and>
     \<not> is_zero (Profit_pct (profit_row v parse m)) \<and>
     (isna (Profit_pct (profit_row v parse m)) \<longleftrightarrow>
        isna (Profit_Value (profit_row v parse m)) \<or> is_zero (Profit_Value (profit_row v parse m)))"
    by (rule profit_row_zero_price)
  moreover have "length out = length df"
    by (simp add: out_def)
  ultimately show ?thesis
    unfolding returns sum.case Let_def row by blast
qed

text \<open>The scenario record at price zero, with its cost of 50 matched.\<close>

lemma zero_price_profit:
  "case hitung_profit Pandas_2 Map.empty zero_price_aged scenario_costs of
     Inl e \<Rightarrow> False
   | Inr out \<Rightarrow>
       Total_Jual_Netto (out ! 0) = Fin 0 \<and> Profit_Value (out ! 0) = Fin (- 100) \<and>
       Profit_pct (out ! 0) = NInf"
  by code_simp

lemma zero_price_input:
  "(0::nat) < length zero_price_aged \<and> Harga_Satuan (zero_price_aged ! 0) = I 0 \<and>
   QTY (zero_price_aged ! 0) = I 2"
  by (simp add: zero_price_aged_def hitung_aging_def aging_row_sel zero_price_def
      scenario_record_def)

theorem hitung_profit_zero_price_witness:
  "(0::nat) < length zero_price_aged \<and> num_is_zero (Harga_Satuan (zero_price_aged ! 0)) \<and>
   num_is_finite (QTY (zero_price_aged ! 0)) \<and>
   (case hitung_profit Pandas_2 Map.empty zero_price_aged scenario_costs of
      Inl e \<Rightarrow> False
    | Inr out \<Rightarrow> Total_Jual_Netto (out ! 0) = Fin 0 \<and> is_inf (Profit_pct (out ! 0)))"
  using hitung_profit_zero_price [of 0 zero_price_aged Pandas_2 Map.empty scenario_costs]
    zero_price_input zero_price_profit
  by (simp add: is_inf_def split: sum.splits)

text \<open>
  C7 as stated fails where the cost is matched: the profit value is \<open>-100\<close>, the
  division by the zero net total sale gives negative infinity, and that is not the
  missing value.
\<close>

theorem profit_percent_infinite_counterexample:
  "Harga_Satuan (zero_price_aged ! 0) = I 0 \<and>
   (case hitung_profit Pandas_2 Map.empty zero_price_aged scenario_costs of
      Inl e \<Rightarrow> False
    | Inr out \<Rightarrow>
        Total_Jual_Netto (out ! 0) = Fin 0 \<and> Profit_Value (out ! 0) = Fin (- 100) \<and>
        Profit_pct (out ! 0) = NInf \<and> \<not> isna (Profit_pct (out ! 0)))"
  using zero_price_input zero_price_profit by (simp split: sum.splits)

text \<open>
  The calendar arithmetic on days that matter: the epoch and the instant before it, the
  leap days of 2024 and 2000, the end of February 1900, and the two ends of the range of
  \<open>datetime64[ns]\<close>.
\<close>

lemma year_month_examples:
  "year_month 0 = (1970, 1)"
  "year_month (- 1) = (1969, 12)"
  "year_month 1704067200000000000 = (2024, 1)"
  "year_month 1709251199999999999 = (2024, 2)"
  "year_month 1709251200000000000 = (2024, 3)"
  "year_month 951782400000000000 = (2000, 2)"
  "year_month (- 2203977600000000000) = (1900, 2)"
  "year_month (- 2203891200000000000) = (1900, 3)"
  "year_month (- 9223372036854775807) = (1677, 9)"
  "year_month 9223372036854775807 = (2262, 4)"
  by code_simp+

lemma strftime_Ym_examples:
  "strftime_Ym (2024, 1) = ''2024-01''" "strftime_Ym (1677, 12) = ''1677-12''"
  by code_simp+

lemma digit_decimal: "digit d \<in> set ''0123456789''"
proof -
  have "nat (d mod 10) < length ''0123456789''"
    by simp
  then show ?thesis
    unfolding digit_def by (rule nth_mem)
qed

lemma strftime_Ym_length: "length (strftime_Ym ym) = 7"
  by (cases ym) (simp add: strftime_Ym_def)

lemma strftime_Ym_not_NaT: "strftime_Ym ym \<noteq> ''NaT''"
proof
  assume "strftime_Ym ym = ''NaT''"
  then have "length (strftime_Ym ym) = length ''NaT''"
    by (rule arg_cong)
  then show False
    by (simp add: strftime_Ym_length)
qed

lemma strftime_Ym_shape:
  "length (strftime_Ym ym) = 7 \<and> strftime_Ym ym ! 4 = CHR ''-'' \<and>
   (\<forall>j \<in> {0, 1, 2, 3, 5, 6}. strftime_Ym ym ! j \<in> set ''0123456789'')"
proof (cases ym)
  case (Pair y m)
  have "length (strftime_Ym (y, m)) = 7" "strftime_Ym (y, m) ! 4 = CHR ''-''"
    "strftime_Ym (y, m) ! 0 = digit (y div 1000)" "strftime_Ym (y, m) ! 1 = digit (y div 100)"
    "strftime_Ym (y, m) ! 2 = digit (y div 10)" "strftime_Ym (y, m) ! 3 = digit y"
    "strftime_Ym (y, m) ! 5 = digit (m div 10)" "strftime_Ym (y, m) ! 6 = digit m"
    by (simp_all add: strftime_Ym_def)
  then show ?thesis
    unfolding Pair using digit_decimal by simp
qed

text \<open>
  C8, as the code has it. When \<open>hitung_profit\<close> returns, the transaction month of a
  record whose registration date parses is the calendar year and month of that date
  printed as seven characters \<open>YYYY-MM\<close> (four digits, a dash, two digits). For a record
  whose registration date does not parse it is what \<open>astype(str)\<close> makes of the missing
  period: the string \<open>NaT\<close> on pandas before 3.0, a missing value on pandas 3.0 and
  later.
\<close>

theorem hitung_profit_transaction_month:
  assumes "i < length df"
  shows "case hitung_profit v parse df order_df of
       Inl e \<Rightarrow> e = ValueError \<and> (\<forall>l \<in> set df. Type_Product l = None)
     | Inr out \<Rightarrow> length out = length df \<and>
         (case to_datetime parse (Date_Register (df ! i)) of
            Some t \<Rightarrow>
              (\<exists>month. Bulan_Transaksi (out ! i) = Some month \<and>
                 month = strftime_Ym (year_month t) \<and> length month = 7 \<and>
                 month ! 4 = CHR ''-'' \<and>
                 (\<forall>j \<in> {0, 1, 2, 3, 5, 6}. month ! j \<in> set ''0123456789'') \<and>
                 month \<noteq> ''NaT'')
          | None \<Rightarrow>
              Bulan_Transaksi (out ! i) =
                (case v of Pandas_2 \<Rightarrow> Some ''NaT'' | Pandas_3 \<Rightarrow> None))"
proof (cases "merge_keys_clash df (drop_duplicates (dropna order_df))")
  case True
  then show ?thesis
    using merge_keys_clash_iff [of df order_df] by (simp add: hitung_profit_rows)
next
  case False
  let ?table = "drop_duplicates (dropna order_df)"
  define out where "out = map (\<lambda>l. profit_row v parse
      (lookup_row (every_row_matched ?table df) ?table l)) df"
  define d where "d = to_datetime parse (Date_Register (df ! i))"
  have returns: "hitung_profit v parse df order_df = Inr out"
    using False by (simp add: hitung_profit_rows out_def)
  have len: "length out = length df"
    by (simp add: out_def)
  have month: "Bulan_Transaksi (out ! i) = astype_str v d"
    using assms by (simp add: out_def d_def profit_row_sel lookup_row_cols)
  show ?thesis
  proof (cases d)
    case None
    then have "Bulan_Transaksi (out ! i) = (case v of Pandas_2 \<Rightarrow> Some ''NaT'' | Pandas_3 \<Rightarrow> None)"
      unfolding month by (cases v) simp_all
    with len show ?thesis
      unfolding returns sum.case d_def [symmetric] None option.case by simp
  next
    case (Some t)
    have "Bulan_Transaksi (out ! i) = Some (strftime_Ym (year_month t))"
      unfolding month Some by simp
    with len strftime_Ym_shape [of "year_month t"] strftime_Ym_not_NaT [of "year_month t"]
    show ?thesis
      unfolding returns sum.case d_def [symmetric] Some option.case by blast
  qed
qed

text \<open>
  The scenario record, registered in January 2024, on either release; and the record
  with the unparseable date on pandas 3.0.
\<close>

lemma scenario_month:
  "case hitung_profit Pandas_3 Map.empty scenario_aged scenario_costs of
     Inl e \<Rightarrow> False | Inr out \<Rightarrow> Bulan_Transaksi (out ! 0) = Some ''2024-01''"
  "case hitung_profit Pandas_3 scenario_parse unparseable_aged scenario_costs of
     Inl e \<Rightarrow> False | Inr out \<Rightarrow> Bulan_Transaksi (out ! 0) = None"
  "case hitung_profit Pandas_2 scenario_parse unparseable_aged scenario_costs of
     Inl e \<Rightarrow> False | Inr out \<Rightarrow> Bulan_Transaksi (out ! 0) = Some ''NaT''"
  by code_simp+

theorem hitung_profit_transaction_month_witness:
  "(0::nat) < length scenario_aged \<and> (0::nat) < length unparseable_aged \<and>
   (case hitung_profit Pandas_3 Map.empty scenario_aged scenario_costs of
      Inl e \<Rightarrow> False | Inr out \<Rightarrow> Bulan_Transaksi (out ! 0) = Some ''2024-01'') \<and>
   (case hitung_profit Pandas_3 scenario_parse unparseable_aged scenario_costs of
      Inl e \<Rightarrow> False | Inr out \<Rightarrow> Bulan_Transaksi (out ! 0) = None)"
  using hitung_profit_transaction_month [of 0 scenario_aged Pandas_3 Map.empty scenario_costs]
    hitung_profit_transaction_month
      [of 0 unparseable_aged Pandas_3 scenario_parse scenario_costs]
    scenario_month(1,2)
  by (simp add: scenario_aged_def unparseable_aged_def hitung_aging_def)

text \<open>
  C8 as stated fails on pandas before 3.0, for a registration date that does not parse:
  the month is the literal string \<open>NaT\<close>.
\<close>

theorem missing_month_is_NaT_counterexample:
  "to_datetime scenario_parse (Date_Register unparseable_date) = None \<and>
   (case hitung_profit Pandas_2 scenario_parse unparseable_aged scenario_costs of
      Inl e \<Rightarrow> False | Inr out \<Rightarrow> Bulan_Transaksi (out ! 0) = Some ''NaT'')"
  using scenario_month(3)
  by (simp add: unparseable_date_def scenario_record_def scenario_parse_def)

end
